theory Spec2Isabelle
  imports Complex_Main
begin

section \<open>Time-series distributions of pymc3/distributions/timeseries.py\<close>

text \<open>
  The log-densities of the module are embedded over the real numbers: a float is read as
  the real it denotes, so rounding, infinities and NaN are outside the embedding. A tensor
  is a zero-dimensional value or a one-dimensional sequence, which is all that the
  univariate distributions of the module (AR1, AR, GaussianRandomWalk, GARCH11,
  EulerMaruyama) handle. Every exception of the source is a value of \<open>error\<close>.
\<close>

subsection \<open>Tensors, slicing and broadcasting\<close>

datatype error = IndexError | BroadcastError | TypeError | ConfigError

datatype tensor = Scalar real | Vec "real list"

fun ndim :: "tensor \<Rightarrow> nat" where
  "ndim (Scalar a) = 0"
| "ndim (Vec xs) = 1"

fun tmap :: "(real \<Rightarrow> real) \<Rightarrow> tensor \<Rightarrow> tensor" where
  "tmap f (Scalar a) = Scalar (f a)"
| "tmap f (Vec xs) = Vec (map f xs)"

text \<open>\<open>tt.sum\<close>: the sum of all elements, a zero-dimensional value.\<close>

fun tsum :: "tensor \<Rightarrow> real" where
  "tsum (Scalar a) = a"
| "tsum (Vec xs) = sum_list xs"

text \<open>
  An elementwise binary operation with the broadcasting rule of the numeric layer: a
  scalar combines with anything, two sequences combine when their lengths agree or when
  one of them has length one; any other pair of lengths is an error.
\<close>

fun elemwise :: "(real \<Rightarrow> real \<Rightarrow> real) \<Rightarrow> tensor \<Rightarrow> tensor \<Rightarrow> error + tensor" where
  "elemwise f (Scalar a) (Scalar b) = Inr (Scalar (f a b))"
| "elemwise f (Scalar a) (Vec ys) = Inr (Vec (map (f a) ys))"
| "elemwise f (Vec xs) (Scalar b) = Inr (Vec (map (\<lambda>a. f a b) xs))"
| "elemwise f (Vec xs) (Vec ys) =
     (if length xs = length ys then Inr (Vec (map2 f xs ys))
      else if length xs = 1 then Inr (Vec (map (f (hd xs)) ys))
      else if length ys = 1 then Inr (Vec (map (\<lambda>a. f a (hd ys)) xs))
      else Inl BroadcastError)"

text \<open>
  Python's slice \<open>xs[start:stop]\<close> with step one: a negative bound counts from the
  end, and every bound is clipped to the sequence.
\<close>

definition py_bound :: "int \<Rightarrow> int \<Rightarrow> int" where
  "py_bound n i = (if i < 0 then max 0 (n + i) else min n i)"

definition py_slice :: "'a list \<Rightarrow> int option \<Rightarrow> int option \<Rightarrow> 'a list" where
  "py_slice xs start stop =
     (let n = int (length xs);
          lo = (case start of None \<Rightarrow> 0 | Some i \<Rightarrow> py_bound n i);
          hi = (case stop of None \<Rightarrow> n | Some j \<Rightarrow> py_bound n j)
      in take (nat (hi - lo)) (drop (nat lo) xs))"

text \<open>
  Slicing and indexing a zero-dimensional value raises IndexError, and so does an index
  outside the sequence; a negative index counts from the end.
\<close>

fun slice :: "tensor \<Rightarrow> int option \<Rightarrow> int option \<Rightarrow> error + tensor" where
  "slice (Scalar a) start stop = Inl IndexError"
| "slice (Vec xs) start stop = Inr (Vec (py_slice xs start stop))"

fun index :: "tensor \<Rightarrow> int \<Rightarrow> error + tensor" where
  "index (Scalar a) i = Inl IndexError"
| "index (Vec xs) i =
     (if 0 \<le> i \<and> i < int (length xs) then Inr (Scalar (xs ! nat i))
      else if i < 0 \<and> - int (length xs) \<le> i then Inr (Scalar (xs ! nat (int (length xs) + i)))
      else Inl IndexError)"

text \<open>\<open>tt.add(*terms)\<close>: the terms are added from left to right; no term at all is an error.\<close>

fun add_from :: "tensor \<Rightarrow> tensor list \<Rightarrow> error + tensor" where
  "add_from acc [] = Inr acc"
| "add_from acc (t # ts) =
     (case elemwise (+) acc t of Inl e \<Rightarrow> Inl e | Inr acc' \<Rightarrow> add_from acc' ts)"

fun tt_add :: "tensor list \<Rightarrow> error + tensor" where
  "tt_add [] = Inl TypeError"
| "tt_add (t # ts) = add_from t ts"

text \<open>A list comprehension whose elements may raise: the first error wins.\<close>

fun collect :: "(error + 'a) list \<Rightarrow> error + 'a list" where
  "collect [] = Inr []"
| "collect (r # rs) =
     (case r of Inl e \<Rightarrow> Inl e
      | Inr v \<Rightarrow> (case collect rs of Inl e \<Rightarrow> Inl e | Inr vs \<Rightarrow> Inr (v # vs)))"

subsection \<open>The scale helper and the Normal and Flat distributions\<close>

text \<open>
  Modelled from the spec: \<open>get_tau_sigma\<close> of continuous.py, which is not among the
  source files. The spec describes it as \<open>resolve_scale(tau?, sigma?) -> (tau, sigma)\<close>,
  which fails with a configuration error unless exactly one input is provided, the two
  scales being linked by \<open>tau = 1 / sigma^2\<close>.
\<close>

fun get_tau_sigma :: "tensor option \<Rightarrow> tensor option \<Rightarrow> error + (tensor \<times> tensor)" where
  "get_tau_sigma None None = Inl ConfigError"
| "get_tau_sigma (Some tau) (Some sigma) = Inl ConfigError"
| "get_tau_sigma None (Some sigma) = Inr (tmap (\<lambda>s. 1 / s\<^sup>2) sigma, sigma)"
| "get_tau_sigma (Some tau) None = Inr (tau, tmap (\<lambda>t. 1 / sqrt t) tau)"

text \<open>
  Modelled from the spec: the Normal distribution of continuous.py, which is not among the
  source files. The spec speaks of the Normal log-density under a mean and a precision (or a
  standard deviation, resolved by the scale helper); at one point that is
  \<open>(ln (tau / (2 pi)) - tau (v - mu)^2) / 2\<close>. The spec gives no guard for a precision
  that is not positive, and none is modelled.
\<close>

definition normal_lpdf :: "real \<Rightarrow> real \<Rightarrow> real \<Rightarrow> real" where
  "normal_lpdf m t v = (- t * (v - m)\<^sup>2 + ln (t / pi / 2)) / 2"

record normal =
  n_mu :: tensor
  n_tau :: tensor
  n_sigma :: tensor

definition Normal_dist :: "tensor \<Rightarrow> tensor option \<Rightarrow> tensor option \<Rightarrow> error + normal" where
  "Normal_dist m sigma tau =
     (case get_tau_sigma tau sigma of
        Inl e \<Rightarrow> Inl e
      | Inr (t, s) \<Rightarrow> Inr \<lparr>n_mu = m, n_tau = t, n_sigma = s\<rparr>)"

text \<open>The log-density of a tensor of values, elementwise, with broadcasting.\<close>

definition Normal_logp :: "normal \<Rightarrow> tensor \<Rightarrow> error + tensor" where
  "Normal_logp d v =
     (case elemwise (-) v (n_mu d) of
        Inl e \<Rightarrow> Inl e
      | Inr dev \<Rightarrow>
          (case elemwise (*) (tmap uminus (n_tau d)) (tmap (\<lambda>z. z\<^sup>2) dev) of
             Inl e \<Rightarrow> Inl e
           | Inr q \<Rightarrow>
               (case elemwise (+) q (tmap (\<lambda>t. ln (t / pi / 2)) (n_tau d)) of
                  Inl e \<Rightarrow> Inl e
                | Inr s \<Rightarrow> Inr (tmap (\<lambda>z. z / 2) s))))"

text \<open>
  Modelled from the spec: the Flat distribution of continuous.py (the default \<open>init\<close>),
  which is not among the source files: an improper flat prior, whose log-density is zero
  at every point.
\<close>

definition Flat_logp :: "tensor \<Rightarrow> error + tensor" where
  "Flat_logp v = Inr (tmap (\<lambda>_. 0) v)"

subsection \<open>AR1\<close>

record ar1 =
  ar1_k :: tensor
  ar1_tau_e :: tensor
  ar1_tau :: tensor

definition AR1_init :: "tensor \<Rightarrow> tensor \<Rightarrow> error + ar1" where
  "AR1_init k tau_e =
     (case elemwise (*) tau_e (tmap (\<lambda>c. 1 - c\<^sup>2) k) of
        Inl e \<Rightarrow> Inl e
      | Inr t \<Rightarrow> Inr \<lparr>ar1_k = k, ar1_tau_e = tau_e, ar1_tau = t\<rparr>)"

definition AR1_logp :: "ar1 \<Rightarrow> tensor \<Rightarrow> error + tensor" where
  "AR1_logp a x =
     (case slice x None (Some (- 1)) of
        Inl e \<Rightarrow> Inl e
      | Inr x_im1 \<Rightarrow>
     (case slice x (Some 1) None of
        Inl e \<Rightarrow> Inl e
      | Inr x_i \<Rightarrow>
     (case Normal_dist (Scalar 0) None (Some (ar1_tau_e a)) of
        Inl e \<Rightarrow> Inl e
      | Inr boundary \<Rightarrow>
     (case elemwise (*) (ar1_k a) x_im1 of
        Inl e \<Rightarrow> Inl e
      | Inr m \<Rightarrow>
     (case Normal_dist m None (Some (ar1_tau_e a)) of
        Inl e \<Rightarrow> Inl e
      | Inr innov \<Rightarrow>
     (case Normal_logp innov x_i of
        Inl e \<Rightarrow> Inl e
      | Inr innov_like \<Rightarrow>
     (case index x 0 of
        Inl e \<Rightarrow> Inl e
      | Inr x0 \<Rightarrow>
     (case Normal_logp boundary x0 of
        Inl e \<Rightarrow> Inl e
      | Inr b \<Rightarrow> elemwise (+) b (Scalar (tsum innov_like))))))))))"

subsection \<open>GARCH11\<close>

record garch11 =
  omega :: real
  alpha_1 :: real
  beta_1 :: real
  initial_vol :: real

definition volatility_update :: "real \<Rightarrow> real \<Rightarrow> real \<Rightarrow> real \<Rightarrow> real \<Rightarrow> real" where
  "volatility_update x vol w a b = sqrt (w + a * x\<^sup>2 + b * vol\<^sup>2)"

text \<open>
  \<open>scan\<close> with one sequence and one recurrent output: each step receives the current
  element and the previous output, and the outputs are collected in order. It iterates over
  a sequence; a zero-dimensional observation never reaches it, since the slice before it
  raises.
\<close>

fun scan :: "(real \<Rightarrow> real \<Rightarrow> real) \<Rightarrow> real list \<Rightarrow> real \<Rightarrow> real list" where
  "scan fn [] prev = []"
| "scan fn (x # xs) prev = (let out = fn x prev in out # scan fn xs out)"

definition get_volatility :: "garch11 \<Rightarrow> tensor \<Rightarrow> error + tensor" where
  "get_volatility g x =
     (case slice x None (Some (- 1)) of
        Inl e \<Rightarrow> Inl e
      | Inr (Scalar a) \<Rightarrow> Inl TypeError
      | Inr (Vec xs) \<Rightarrow>
          Inr (Vec (initial_vol g #
            scan (\<lambda>x vol. volatility_update x vol (omega g) (alpha_1 g) (beta_1 g)) xs
              (initial_vol g))))"

definition GARCH11_logp :: "garch11 \<Rightarrow> tensor \<Rightarrow> error + tensor" where
  "GARCH11_logp g x =
     (case get_volatility g x of
        Inl e \<Rightarrow> Inl e
      | Inr vol \<Rightarrow>
     (case Normal_dist (Scalar 0) (Some vol) None of
        Inl e \<Rightarrow> Inl e
      | Inr d \<Rightarrow>
     (case Normal_logp d x of
        Inl e \<Rightarrow> Inl e
      | Inr l \<Rightarrow> Inr (Scalar (tsum l)))))"

subsection \<open>AR\<close>

text \<open>
  \<open>rho\<close> is a sequence of coefficients (a Python list or a one-dimensional tensor, whose
  length gives the number of lags) or a zero-dimensional tensor (one lag). \<open>init\<close> is
  the log-density of the initial-value distribution.
\<close>

record ar =
  ar_sigma :: tensor
  ar_tau :: tensor
  ar_p :: int
  ar_constant :: bool
  ar_rho :: tensor
  ar_init :: "tensor \<Rightarrow> error + tensor"

definition AR_init ::
  "tensor \<Rightarrow> tensor option \<Rightarrow> tensor option \<Rightarrow> bool \<Rightarrow> (tensor \<Rightarrow> error + tensor) \<Rightarrow>
   tensor option \<Rightarrow> error + ar" where
  "AR_init rho sigma tau constant init sd =
     (let sigma' = (case sd of None \<Rightarrow> sigma | Some s \<Rightarrow> Some s) in
      case get_tau_sigma tau sigma' of
        Inl e \<Rightarrow> Inl e
      | Inr (t, s) \<Rightarrow>
          (let p = (case rho of Scalar r \<Rightarrow> 1 | Vec rs \<Rightarrow> int (length rs)) in
           Inr \<lparr>ar_sigma = s, ar_tau = t, ar_p = (if constant then p - 1 else p),
                ar_constant = constant, ar_rho = rho, ar_init = init\<rparr>))"

text \<open>
  The lagged terms \<open>rho[i + off] * value[p - (i + 1) : -(i + 1)]\<close> for \<open>i\<close> in
  \<open>range(p)\<close>.
\<close>

definition lag_term :: "ar \<Rightarrow> tensor \<Rightarrow> int \<Rightarrow> int \<Rightarrow> error + tensor" where
  "lag_term a v off i =
     (case index (ar_rho a) (i + off) of
        Inl e \<Rightarrow> Inl e
      | Inr c \<Rightarrow>
          (case slice v (Some (ar_p a - (i + 1))) (Some (- (i + 1))) of
             Inl e \<Rightarrow> Inl e
           | Inr w \<Rightarrow> elemwise (*) c w))"

definition lag_terms :: "ar \<Rightarrow> tensor \<Rightarrow> int \<Rightarrow> error + tensor list" where
  "lag_terms a v off = collect (map (\<lambda>i. lag_term a v off (int i)) [0 ..< nat (ar_p a)])"

text \<open>The innovation residuals \<open>eps\<close> of \<open>AR.logp\<close>.\<close>

definition AR_eps :: "ar \<Rightarrow> tensor \<Rightarrow> error + tensor" where
  "AR_eps a v =
     (if ar_constant a then
        (case lag_terms a v 1 of
           Inl e \<Rightarrow> Inl e
         | Inr ts \<Rightarrow>
        (case tt_add ts of
           Inl e \<Rightarrow> Inl e
         | Inr x \<Rightarrow>
        (case slice v (Some (ar_p a)) None of
           Inl e \<Rightarrow> Inl e
         | Inr tail \<Rightarrow>
        (case index (ar_rho a) 0 of
           Inl e \<Rightarrow> Inl e
         | Inr c \<Rightarrow>
        (case elemwise (-) tail c of
           Inl e \<Rightarrow> Inl e
         | Inr d \<Rightarrow> elemwise (-) d x)))))
      else
        (case
           (if ar_p a = 1 then
              (case slice v None (Some (- 1)) of
                 Inl e \<Rightarrow> Inl e
               | Inr w \<Rightarrow> elemwise (*) (ar_rho a) w)
            else
              (case lag_terms a v 0 of Inl e \<Rightarrow> Inl e | Inr ts \<Rightarrow> tt_add ts))
         of
           Inl e \<Rightarrow> Inl e
         | Inr x \<Rightarrow>
             (case slice v (Some (ar_p a)) None of
                Inl e \<Rightarrow> Inl e
              | Inr tail \<Rightarrow> elemwise (-) tail x)))"

definition AR_logp :: "ar \<Rightarrow> tensor \<Rightarrow> error + tensor" where
  "AR_logp a v =
     (case AR_eps a v of
        Inl e \<Rightarrow> Inl e
      | Inr eps \<Rightarrow>
     (case Normal_dist (Scalar 0) None (Some (ar_tau a)) of
        Inl e \<Rightarrow> Inl e
      | Inr d \<Rightarrow>
     (case Normal_logp d eps of
        Inl e \<Rightarrow> Inl e
      | Inr innov_like \<Rightarrow>
     (case slice v None (Some (ar_p a)) of
        Inl e \<Rightarrow> Inl e
      | Inr first \<Rightarrow>
     (case ar_init a first of
        Inl e \<Rightarrow> Inl e
      | Inr init_like \<Rightarrow> Inr (Scalar (tsum innov_like + tsum init_like)))))))"

subsection \<open>GaussianRandomWalk\<close>

text \<open>
  The shape is the tuple of dimensions that the base class stores (an integer \<open>n\<close> is the
  tuple \<open>(n,)\<close>); when the caller gives none, the constructor sets it to 1.
\<close>

record grw =
  grw_tau :: tensor
  grw_sigma :: tensor
  grw_mu :: tensor
  grw_init :: "tensor \<Rightarrow> error + tensor"
  grw_shape :: "nat list"

definition GRW_init ::
  "tensor option \<Rightarrow> (tensor \<Rightarrow> error + tensor) \<Rightarrow> tensor option \<Rightarrow> tensor \<Rightarrow> tensor option \<Rightarrow>
   nat list option \<Rightarrow> error + grw" where
  "GRW_init tau init sigma mu sd shape =
     (let shp = (case shape of None \<Rightarrow> [1] | Some s \<Rightarrow> s) in
      if sum_list shp = 0 then Inl TypeError
      else
        (let sigma' = (case sd of None \<Rightarrow> sigma | Some s \<Rightarrow> Some s) in
         case get_tau_sigma tau sigma' of
           Inl e \<Rightarrow> Inl e
         | Inr (t, s) \<Rightarrow>
             Inr \<lparr>grw_tau = t, grw_sigma = s, grw_mu = mu, grw_init = init, grw_shape = shp\<rparr>))"

text \<open>\<open>_mu_and_sigma\<close>: a sequence-valued parameter loses its first element.\<close>

definition drop_first :: "tensor \<Rightarrow> error + tensor" where
  "drop_first t = (if ndim t > 0 then slice t (Some 1) None else Inr t)"

definition GRW_logp :: "grw \<Rightarrow> tensor \<Rightarrow> error + tensor" where
  "GRW_logp g x =
     (if ndim x > 0 then
        (case slice x None (Some (- 1)) of
           Inl e \<Rightarrow> Inl e
         | Inr x_im1 \<Rightarrow>
        (case slice x (Some 1) None of
           Inl e \<Rightarrow> Inl e
         | Inr x_i \<Rightarrow>
        (case drop_first (grw_sigma g) of
           Inl e \<Rightarrow> Inl e
         | Inr sigma \<Rightarrow>
        (case drop_first (grw_mu g) of
           Inl e \<Rightarrow> Inl e
         | Inr mu \<Rightarrow>
        (case elemwise (+) x_im1 mu of
           Inl e \<Rightarrow> Inl e
         | Inr m \<Rightarrow>
        (case Normal_dist m (Some sigma) None of
           Inl e \<Rightarrow> Inl e
         | Inr d \<Rightarrow>
        (case Normal_logp d x_i of
           Inl e \<Rightarrow> Inl e
         | Inr innov_like \<Rightarrow>
        (case index x 0 of
           Inl e \<Rightarrow> Inl e
         | Inr x0 \<Rightarrow>
        (case grw_init g x0 of
           Inl e \<Rightarrow> Inl e
         | Inr i \<Rightarrow> elemwise (+) i (Scalar (tsum innov_like)))))))))))
      else grw_init g x)"

text \<open>
  A parameter is aligned with a walk of \<open>n\<close> steps when it is a single value or a sequence
  of length \<open>n\<close> (its first dimension matches the shape of the random walk).
\<close>

definition aligned :: "tensor \<Rightarrow> nat \<Rightarrow> bool" where
  "aligned t n = (case t of Scalar a \<Rightarrow> True | Vec ps \<Rightarrow> length ps = n)"

subsection \<open>EulerMaruyama\<close>

text \<open>
  \<open>sde_fn\<close> is any pure function from the state and the parameters \<open>sde_pars\<close> to the
  pair of drift and diffusion.
\<close>

record 'p euler_maruyama =
  em_dt :: tensor
  em_sde_fn :: "tensor \<Rightarrow> 'p \<Rightarrow> tensor \<times> tensor"
  em_sde_pars :: 'p

definition EM_logp :: "'p euler_maruyama \<Rightarrow> tensor \<Rightarrow> error + tensor" where
  "EM_logp m x =
     (case slice x None (Some (- 1)) of
        Inl e \<Rightarrow> Inl e
      | Inr xt \<Rightarrow>
     (case em_sde_fn m xt (em_sde_pars m) of (f, g) \<Rightarrow>
     (case elemwise (*) (em_dt m) f of
        Inl e \<Rightarrow> Inl e
      | Inr df \<Rightarrow>
     (case elemwise (+) xt df of
        Inl e \<Rightarrow> Inl e
      | Inr mu \<Rightarrow>
     (case elemwise (*) (tmap sqrt (em_dt m)) g of
        Inl e \<Rightarrow> Inl e
      | Inr sd \<Rightarrow>
     (case Normal_dist mu (Some sd) None of
        Inl e \<Rightarrow> Inl e
      | Inr d \<Rightarrow>
     (case slice x (Some 1) None of
        Inl e \<Rightarrow> Inl e
      | Inr x_i \<Rightarrow>
     (case Normal_logp d x_i of
        Inl e \<Rightarrow> Inl e
      | Inr l \<Rightarrow> Inr (Scalar (tsum l))))))))))"

section \<open>Properties\<close>

subsection \<open>Slices\<close>

lemma py_slice_butlast: "py_slice xs None (Some (- 1)) = butlast xs"
proof -
  have "nat (max 0 (int (length xs) - 1)) = length xs - 1"
    by (cases xs) simp_all
  then show ?thesis
    by (simp add: py_slice_def py_bound_def butlast_conv_take)
qed

lemma py_slice_tl: "py_slice xs (Some 1) None = tl xs"
proof (cases xs)
  case Nil
  then show ?thesis by (simp add: py_slice_def py_bound_def)
next
  case (Cons y ys)
  then show ?thesis by (simp add: py_slice_def py_bound_def)
qed

subsection \<open>GARCH11: the volatility recurrence\<close>

lemma length_scan: "length (scan f xs p) = length xs"
  by (induction xs arbitrary: p) (simp_all add: Let_def)

lemma scan_step:
  "t < length xs \<Longrightarrow> (p # scan f xs p) ! Suc t = f (xs ! t) ((p # scan f xs p) ! t)"
proof (induction xs arbitrary: p t)
  case Nil
  then show ?case by simp
next
  case (Cons x xs)
  show ?case
  proof (cases t)
    case 0
    then show ?thesis by (simp add: Let_def)
  next
    case (Suc u)
    with Cons.prems have "u < length xs" by simp
    from Cons.IH[OF this, of "f x p"] Suc show ?thesis by (simp add: Let_def)
  qed
qed

lemma foldl_scan:
  "foldl (\<lambda>acc x. f x (hd acc) # acc) (q # acc0) xs = rev (scan f xs q) @ (q # acc0)"
  by (induction xs arbitrary: q acc0) (simp_all add: Let_def)

lemma scan_constant:
  "scan (\<lambda>x vol. volatility_update x vol 1 0 0) xs 1 = replicate (length xs) 1"
  by (induction xs) (simp_all add: Let_def volatility_update_def)

lemma get_volatility_Vec:
  "get_volatility g (Vec xs) =
     Inr (Vec (initial_vol g #
       scan (\<lambda>x vol. volatility_update x vol (omega g) (alpha_1 g) (beta_1 g)) (butlast xs)
         (initial_vol g)))"
  by (simp add: get_volatility_def py_slice_butlast)

text \<open>
  Claim C2. For every GARCH11 instance and every sequence \<open>xs\<close>, \<open>get_volatility\<close> returns
  a sequence \<open>vol\<close> that starts with \<open>initial_vol\<close> and satisfies
  \<open>vol[t] = sqrt (omega + alpha_1 * xs[t-1]^2 + beta_1 * vol[t-1]^2)\<close> at every later
  position; it has one value per observation (and the single value \<open>initial_vol\<close> for the
  empty sequence); it is the left-to-right fold of the update over all observations but the
  last; and for \<open>omega = 1\<close>, \<open>alpha_1 = 0\<close>, \<open>beta_1 = 0\<close>, \<open>initial_vol = 1\<close> it is the
  constant sequence equal to \<open>initial_vol\<close>.
\<close>

theorem get_volatility_recurrence:
  "\<exists>vol. get_volatility g (Vec xs) = Inr (Vec vol)
     \<and> length vol = max 1 (length xs)
     \<and> vol ! 0 = initial_vol g
     \<and> (\<forall>t. 1 \<le> t \<and> t < length vol \<longrightarrow>
           vol ! t = sqrt (omega g + alpha_1 g * (xs ! (t - 1))\<^sup>2 + beta_1 g * (vol ! (t - 1))\<^sup>2))
     \<and> vol = rev (foldl (\<lambda>acc x. volatility_update x (hd acc) (omega g) (alpha_1 g) (beta_1 g) # acc)
                [initial_vol g] (butlast xs))
     \<and> (omega g = 1 \<and> alpha_1 g = 0 \<and> beta_1 g = 0 \<and> initial_vol g = 1 \<longrightarrow>
           vol = replicate (length vol) (initial_vol g))"
proof -
  define f where "f = (\<lambda>x vol. volatility_update x vol (omega g) (alpha_1 g) (beta_1 g))"
  define vol where "vol = initial_vol g # scan f (butlast xs) (initial_vol g)"
  have run: "get_volatility g (Vec xs) = Inr (Vec vol)"
    by (simp add: get_volatility_Vec vol_def f_def)
  have len: "length vol = max 1 (length xs)"
    by (cases xs) (simp_all add: vol_def length_scan)
  have first: "vol ! 0 = initial_vol g"
    by (simp add: vol_def)
  have step: "vol ! t = sqrt (omega g + alpha_1 g * (xs ! (t - 1))\<^sup>2 + beta_1 g * (vol ! (t - 1))\<^sup>2)"
    if "1 \<le> t" "t < length vol" for t
  proof -
    from that obtain u where u: "t = Suc u" by (cases t) simp_all
    with that have ub: "u < length (butlast xs)" by (simp add: vol_def length_scan)
    have "vol ! Suc u = f (butlast xs ! u) (vol ! u)"
      unfolding vol_def by (rule scan_step[OF ub])
    moreover have "butlast xs ! u = xs ! u" using ub by (simp add: nth_butlast)
    ultimately show ?thesis by (simp add: u f_def volatility_update_def)
  qed
  have fold: "vol = rev (foldl (\<lambda>acc x. f x (hd acc) # acc) [initial_vol g] (butlast xs))"
    by (simp add: foldl_scan vol_def)
  have const: "vol = replicate (length vol) (initial_vol g)"
    if "omega g = 1 \<and> alpha_1 g = 0 \<and> beta_1 g = 0 \<and> initial_vol g = 1"
    using that by (simp add: vol_def f_def scan_constant length_scan)
  from run len first step fold const show ?thesis
    unfolding f_def by blast
qed

theorem get_volatility_recurrence_witness:
  "get_volatility \<lparr>omega = 1, alpha_1 = 0, beta_1 = 0, initial_vol = 1\<rparr> (Vec [3, 4, 5])
     = Inr (Vec [1, 1, 1])"
proof -
  from get_volatility_recurrence[of "\<lparr>omega = 1, alpha_1 = 0, beta_1 = 0, initial_vol = 1\<rparr>" "[3, 4, 5]"]
  obtain vol where
    r: "get_volatility \<lparr>omega = 1, alpha_1 = 0, beta_1 = 0, initial_vol = 1\<rparr> (Vec [3, 4, 5]) = Inr (Vec vol)"
    and l: "length vol = max 1 (length [3::real, 4, 5])"
    and c: "vol = replicate (length vol) 1"
    by auto
  from l have "length vol = 3" by simp
  with c have "vol = replicate 3 1" by simp
  then have "vol = [1, 1, 1]" by (simp add: numeral_3_eq_3)
  with r show ?thesis by simp
qed

text \<open>
  Claim C9. Two sequences of the same length (at least 1) that agree everywhere but
  possibly in their final element have the same volatility sequence: \<open>get_volatility\<close>,
  which is all that \<open>GARCH11_logp\<close> reads the volatility from, never looks at the last
  observation.
\<close>

theorem last_observation_unused:
  "length xs = length ys \<Longrightarrow> xs \<noteq> [] \<Longrightarrow> (\<forall>i. i + 1 < length xs \<longrightarrow> xs ! i = ys ! i) \<Longrightarrow>
     get_volatility g (Vec xs) = get_volatility g (Vec ys)
     \<and> (\<exists>vol. get_volatility g (Vec xs) = Inr (Vec vol) \<and> length vol = length xs)"
proof -
  assume len: "length xs = length ys" and ne: "xs \<noteq> []"
    and same: "\<forall>i. i + 1 < length xs \<longrightarrow> xs ! i = ys ! i"
  have "butlast xs = butlast ys"
  proof (rule nth_equalityI)
    show "length (butlast xs) = length (butlast ys)" using len by simp
  next
    fix i assume "i < length (butlast xs)"
    then show "butlast xs ! i = butlast ys ! i"
      using same len by (simp add: nth_butlast)
  qed
  then have eq: "get_volatility g (Vec xs) = get_volatility g (Vec ys)"
    by (simp add: get_volatility_Vec)
  have "\<exists>vol. get_volatility g (Vec xs) = Inr (Vec vol) \<and> length vol = length xs"
    using ne by (simp add: get_volatility_Vec length_scan)
  with eq show ?thesis by blast
qed

theorem last_observation_unused_witness:
  "get_volatility \<lparr>omega = 1, alpha_1 = 1, beta_1 = 1, initial_vol = 0\<rparr> (Vec [2, 7])
     = get_volatility \<lparr>omega = 1, alpha_1 = 1, beta_1 = 1, initial_vol = 0\<rparr> (Vec [2, 9])"
  using last_observation_unused[of "[2, 7]" "[2, 9]" "\<lparr>omega = 1, alpha_1 = 1, beta_1 = 1, initial_vol = 0\<rparr>"]
  by (simp add: nth_Cons')

subsection \<open>The Normal log-density on tensors\<close>

lemma Normal_dist_tau: "Normal_dist m None (Some t) = Inr \<lparr>n_mu = m, n_tau = t, n_sigma = tmap (\<lambda>t. 1 / sqrt t) t\<rparr>"
  by (simp add: Normal_dist_def)

lemma Normal_dist_sigma: "Normal_dist m (Some s) None = Inr \<lparr>n_mu = m, n_tau = tmap (\<lambda>s. 1 / s\<^sup>2) s, n_sigma = s\<rparr>"
  by (simp add: Normal_dist_def)

lemma Normal_logp_point:
  "n_mu d = Scalar m \<Longrightarrow> n_tau d = Scalar t \<Longrightarrow> Normal_logp d (Scalar v) = Inr (Scalar (normal_lpdf m t v))"
  by (simp add: Normal_logp_def normal_lpdf_def)

lemma Normal_logp_fixed_mean:
  "n_mu d = Scalar m \<Longrightarrow> n_tau d = Scalar t \<Longrightarrow> Normal_logp d (Vec vs) = Inr (Vec (map (normal_lpdf m t) vs))"
  by (simp add: Normal_logp_def normal_lpdf_def comp_def)

lemma Normal_logp_means:
  "n_mu d = Vec ms \<Longrightarrow> n_tau d = Scalar t \<Longrightarrow> length vs = length ms \<Longrightarrow>
     Normal_logp d (Vec vs) = Inr (Vec (map2 (\<lambda>v m. normal_lpdf m t v) vs ms))"
  by (simp add: Normal_logp_def normal_lpdf_def comp_def map_zip_map split_def zip_map_fst_snd)

lemma index_first: "xs \<noteq> [] \<Longrightarrow> index (Vec xs) 0 = Inr (Scalar (xs ! 0))"
  by simp

lemma sum_list_lagged:
  "xs \<noteq> [] \<Longrightarrow> sum_list (map2 f (tl xs) (butlast xs)) = (\<Sum>i = 1..<length xs. f (xs ! i) (xs ! (i - 1)))"
proof -
  assume ne: "xs \<noteq> []"
  have "sum_list (map2 f (tl xs) (butlast xs)) = (\<Sum>i = 0..<length xs - 1. map2 f (tl xs) (butlast xs) ! i)"
    by (simp add: sum_list_sum_nth)
  also have "\<dots> = (\<Sum>i = 0..<length xs - 1. f (xs ! Suc i) (xs ! i))"
    by (rule sum.cong) (simp_all add: nth_tl nth_butlast)
  also have "\<dots> = (\<Sum>i = Suc 0..<Suc (length xs - 1). f (xs ! i) (xs ! (i - 1)))"
    unfolding sum.shift_bounds_Suc_ivl by simp
  also have "Suc (length xs - 1) = length xs" using ne by simp
  finally show ?thesis by simp
qed

subsection \<open>AR1\<close>

lemma AR1_logp_Vec:
  assumes "ar1_k a = Scalar k" "ar1_tau_e a = Scalar t" "xs \<noteq> []"
  shows "AR1_logp a (Vec xs) =
     Inr (Scalar (normal_lpdf 0 t (xs ! 0) +
       sum_list (map2 (\<lambda>v u. normal_lpdf (k * u) t v) (tl xs) (butlast xs))))"
proof -
  have means: "Normal_logp \<lparr>n_mu = Vec (map ((*) k) (butlast xs)), n_tau = Scalar t, n_sigma = s\<rparr> (Vec (tl xs))
      = Inr (Vec (map2 (\<lambda>v u. normal_lpdf (k * u) t v) (tl xs) (butlast xs)))" for s
    by (simp add: Normal_logp_means zip_map2 map_zip_map2 split_def)
  have point: "Normal_logp \<lparr>n_mu = Scalar 0, n_tau = Scalar t, n_sigma = s\<rparr> (Scalar (xs ! 0))
      = Inr (Scalar (normal_lpdf 0 t (xs ! 0)))" for s
    by (simp add: Normal_logp_point)
  show ?thesis
    using assms
    by (simp add: AR1_logp_def py_slice_butlast py_slice_tl Normal_dist_tau means point)
qed

lemma sum_from_one:
  "xs \<noteq> [] \<Longrightarrow> f (xs ! 0) + (\<Sum>i = 1..<length xs. f (xs ! i)) = sum_list (map f xs)"
proof -
  assume "xs \<noteq> []"
  then have pos: "0 < length xs" by simp
  have "sum_list (map f xs) = (\<Sum>i = 0..<length xs. f (xs ! i))"
    by (simp add: sum_list_sum_nth)
  also have "\<dots> = f (xs ! 0) + (\<Sum>i = Suc 0..<length xs. f (xs ! i))"
    using pos by (simp add: sum.atLeast_Suc_lessThan)
  finally show ?thesis by simp
qed

text \<open>
  Claim C1. For an AR1 distribution with scalar \<open>k\<close> and \<open>tau_e\<close> and every sequence of
  length at least 1, \<open>logp\<close> is the Normal log-density of the first element under mean 0 and
  precision \<open>tau_e\<close> plus the sum, over every later position \<open>i\<close>, of the Normal log-density
  of \<open>x[i]\<close> under mean \<open>k * x[i-1]\<close> and precision \<open>tau_e\<close>; with \<open>k = 0\<close> it is the sum
  of independent Normal(0, \<open>tau_e\<close>) log-densities over all elements.
\<close>

theorem AR1_logp_sum:
  "ar1_k a = Scalar k \<Longrightarrow> ar1_tau_e a = Scalar t \<Longrightarrow> xs \<noteq> [] \<Longrightarrow>
     AR1_logp a (Vec xs) =
       Inr (Scalar (normal_lpdf 0 t (xs ! 0) +
         (\<Sum>i = 1..<length xs. normal_lpdf (k * xs ! (i - 1)) t (xs ! i))))
     \<and> (k = 0 \<longrightarrow> AR1_logp a (Vec xs) = Inr (Scalar (\<Sum>v\<leftarrow>xs. normal_lpdf 0 t v)))"
proof -
  assume k: "ar1_k a = Scalar k" and t: "ar1_tau_e a = Scalar t" and ne: "xs \<noteq> []"
  have main: "AR1_logp a (Vec xs) =
       Inr (Scalar (normal_lpdf 0 t (xs ! 0) +
         (\<Sum>i = 1..<length xs. normal_lpdf (k * xs ! (i - 1)) t (xs ! i))))"
    by (simp add: AR1_logp_Vec[OF k t ne] sum_list_lagged[OF ne])
  have "AR1_logp a (Vec xs) = Inr (Scalar (\<Sum>v\<leftarrow>xs. normal_lpdf 0 t v))" if "k = 0"
    using that main sum_from_one[OF ne, of "normal_lpdf 0 t"] by simp
  with main show ?thesis by blast
qed

theorem AR1_logp_sum_witness:
  "AR1_logp \<lparr>ar1_k = Scalar 0, ar1_tau_e = Scalar 1, ar1_tau = Scalar 1\<rparr> (Vec [1, 2])
     = Inr (Scalar (\<Sum>v\<leftarrow>[1, 2]. normal_lpdf 0 1 v))"
  using AR1_logp_sum[of "\<lparr>ar1_k = Scalar 0, ar1_tau_e = Scalar 1, ar1_tau = Scalar 1\<rparr>" 0 1 "[1, 2]"]
  by simp

subsection \<open>GaussianRandomWalk and EulerMaruyama\<close>

lemma GRW_logp_Vec:
  assumes "grw_mu g = Scalar m" "grw_sigma g = Scalar s" "xs \<noteq> []"
  shows "GRW_logp g (Vec xs) =
     (case grw_init g (Scalar (xs ! 0)) of
        Inl e \<Rightarrow> Inl e
      | Inr i \<Rightarrow> elemwise (+) i
          (Scalar (sum_list (map2 (\<lambda>v u. normal_lpdf (u + m) (1 / s\<^sup>2) v) (tl xs) (butlast xs)))))"
proof -
  have means: "Normal_logp \<lparr>n_mu = Vec (map (\<lambda>u. u + m) (butlast xs)), n_tau = Scalar (1 / s\<^sup>2), n_sigma = r\<rparr> (Vec (tl xs))
      = Inr (Vec (map2 (\<lambda>v u. normal_lpdf (u + m) (1 / s\<^sup>2) v) (tl xs) (butlast xs)))" for r
    by (simp add: Normal_logp_means zip_map2 map_zip_map2 split_def)
  show ?thesis
    using assms
    by (simp add: GRW_logp_def drop_first_def py_slice_butlast py_slice_tl Normal_dist_sigma means
          cong: sum.case_cong)
qed

lemma EM_logp_Vec:
  assumes "em_dt m = Scalar dt" "em_sde_fn m = (\<lambda>x p. (Scalar f, Scalar g))"
  shows "EM_logp m (Vec xs) =
     Inr (Scalar (sum_list (map2 (\<lambda>v u. normal_lpdf (u + dt * f) (1 / (sqrt dt * g)\<^sup>2) v) (tl xs) (butlast xs))))"
proof -
  have means: "Normal_logp \<lparr>n_mu = Vec (map (\<lambda>u. u + dt * f) (butlast xs)), n_tau = Scalar (1 / (sqrt dt * g)\<^sup>2), n_sigma = r\<rparr> (Vec (tl xs))
      = Inr (Vec (map2 (\<lambda>v u. normal_lpdf (u + dt * f) (1 / (sqrt dt * g)\<^sup>2) v) (tl xs) (butlast xs)))" for r
    by (simp add: Normal_logp_means zip_map2 map_zip_map2 split_def)
  show ?thesis
    using assms
    by (simp add: EM_logp_def py_slice_butlast py_slice_tl Normal_dist_sigma means)
qed

lemma GRW_init_fields:
  assumes "GRW_init None init (Some s) m None shape = Inr g"
  shows "grw_mu g = m \<and> grw_sigma g = s \<and> grw_init g = init \<and> grw_tau g = tmap (\<lambda>s. 1 / s\<^sup>2) s"
  using assms by (auto simp: GRW_init_def Let_def split: if_splits)

lemma increment_lpdf: "normal_lpdf (u + 0) (1 / 1\<^sup>2) v = normal_lpdf 0 1 (v - u)"
  by (simp add: normal_lpdf_def)

text \<open>
  Claim C6. For a GaussianRandomWalk with scalar \<open>mu = 0\<close>, \<open>sigma = 1\<close> and a flat initial
  distribution, and every sequence with at least one element, adding the same constant to
  every element leaves \<open>logp\<close> unchanged; \<open>logp\<close> is the sum of the standard Normal
  log-densities of the increments \<open>x[i] - x[i-1]\<close>.
\<close>

theorem GRW_translation_invariant:
  "grw_mu g = Scalar 0 \<Longrightarrow> grw_sigma g = Scalar 1 \<Longrightarrow> grw_init g = Flat_logp \<Longrightarrow> xs \<noteq> [] \<Longrightarrow>
     GRW_logp g (Vec (map (\<lambda>v. v + c) xs)) = GRW_logp g (Vec xs)
     \<and> GRW_logp g (Vec xs) =
         Inr (Scalar (\<Sum>i = 1..<length xs. normal_lpdf 0 1 (xs ! i - xs ! (i - 1))))"
proof -
  assume mu: "grw_mu g = Scalar 0" and sigma: "grw_sigma g = Scalar 1"
    and init: "grw_init g = Flat_logp" and ne: "xs \<noteq> []"
  have incr: "GRW_logp g (Vec ys) =
      Inr (Scalar (\<Sum>i = 1..<length ys. normal_lpdf 0 1 (ys ! i - ys ! (i - 1))))"
    if "ys \<noteq> []" for ys
  proof -
    have "GRW_logp g (Vec ys) =
        (case Flat_logp (Scalar (ys ! 0)) of
           Inl e \<Rightarrow> Inl e
         | Inr i \<Rightarrow> elemwise (+) i
             (Scalar (sum_list (map2 (\<lambda>v u. normal_lpdf 0 1 (v - u)) (tl ys) (butlast ys)))))"
      unfolding GRW_logp_Vec[OF mu sigma that] increment_lpdf init ..
    then show ?thesis
      by (simp add: Flat_logp_def sum_list_lagged[OF that])
  qed
  have "(\<Sum>i = 1..<length xs. normal_lpdf 0 1 (map (\<lambda>v. v + c) xs ! i - map (\<lambda>v. v + c) xs ! (i - 1)))
      = (\<Sum>i = 1..<length xs. normal_lpdf 0 1 (xs ! i - xs ! (i - 1)))"
  proof (rule sum.cong)
    fix i assume "i \<in> {1..<length xs}"
    then have "i < length xs" and "i - 1 < length xs" by auto
    then show "normal_lpdf 0 1 (map (\<lambda>v. v + c) xs ! i - map (\<lambda>v. v + c) xs ! (i - 1))
        = normal_lpdf 0 1 (xs ! i - xs ! (i - 1))"
      by (simp only: nth_map) simp
  qed simp
  with incr[of "map (\<lambda>v. v + c) xs"] incr[OF ne] ne show ?thesis by simp
qed

theorem GRW_translation_invariant_witness:
  "GRW_logp \<lparr>grw_tau = Scalar 1, grw_sigma = Scalar 1, grw_mu = Scalar 0, grw_init = Flat_logp,
      grw_shape = [2]\<rparr> (Vec (map (\<lambda>v. v + 10) [1, 3]))
   = GRW_logp \<lparr>grw_tau = Scalar 1, grw_sigma = Scalar 1, grw_mu = Scalar 0, grw_init = Flat_logp,
      grw_shape = [2]\<rparr> (Vec [1, 3])"
  using GRW_translation_invariant[of "\<lparr>grw_tau = Scalar 1, grw_sigma = Scalar 1, grw_mu = Scalar 0,
      grw_init = Flat_logp, grw_shape = [2]\<rparr>" "[1, 3]" 10]
  by simp

text \<open>
  Claim C3, as amended. For every sequence of length at least 1, the log-density of
  EulerMaruyama with \<open>dt = 1\<close> and an \<open>sde_fn\<close> that returns the constant pair (0, 1) equals
  that of the GaussianRandomWalk constructed with \<open>mu = 0\<close>, \<open>sigma = 1\<close> and the Flat initial
  distribution, and it is a number, not an error.
\<close>

theorem EM_matches_GRW:
  "em_dt m = Scalar 1 \<Longrightarrow> em_sde_fn m = (\<lambda>x p. (Scalar 0, Scalar 1)) \<Longrightarrow>
   GRW_init None Flat_logp (Some (Scalar 1)) (Scalar 0) None shape = Inr g \<Longrightarrow> xs \<noteq> [] \<Longrightarrow>
     EM_logp m (Vec xs) = GRW_logp g (Vec xs)
     \<and> (\<exists>r. EM_logp m (Vec xs) = Inr (Scalar r))"
proof -
  assume dt: "em_dt m = Scalar 1" and fn: "em_sde_fn m = (\<lambda>x p. (Scalar 0, Scalar 1))"
    and g: "GRW_init None Flat_logp (Some (Scalar 1)) (Scalar 0) None shape = Inr g"
    and ne: "xs \<noteq> []"
  from GRW_init_fields[OF g]
  have mu: "grw_mu g = Scalar 0" and sigma: "grw_sigma g = Scalar 1" and init: "grw_init g = Flat_logp"
    by simp_all
  have "EM_logp m (Vec xs) = GRW_logp g (Vec xs)"
    by (simp add: EM_logp_Vec[OF dt fn] GRW_logp_Vec[OF mu sigma ne] init Flat_logp_def)
  moreover have "\<exists>r. EM_logp m (Vec xs) = Inr (Scalar r)"
    by (simp add: EM_logp_Vec[OF dt fn])
  ultimately show ?thesis by blast
qed

theorem EM_matches_GRW_witness:
  "EM_logp \<lparr>em_dt = Scalar 1, em_sde_fn = (\<lambda>x p. (Scalar 0, Scalar 1)), em_sde_pars = ()\<rparr> (Vec [1, 3])
   = GRW_logp \<lparr>grw_tau = Scalar 1, grw_sigma = Scalar 1, grw_mu = Scalar 0, grw_init = Flat_logp,
      grw_shape = [1]\<rparr> (Vec [1, 3])"
  using EM_matches_GRW[of "\<lparr>em_dt = Scalar 1, em_sde_fn = (\<lambda>x p. (Scalar 0, Scalar 1)), em_sde_pars = ()\<rparr>"
      None "\<lparr>grw_tau = Scalar 1, grw_sigma = Scalar 1, grw_mu = Scalar 0, grw_init = Flat_logp,
      grw_shape = [1]\<rparr>" "[1, 3]"]
  by (simp add: GRW_init_def)

text \<open>
  Claim C3 as stated, for every sequence, fails at the empty sequence: EulerMaruyama sums
  no term and returns 0, while GaussianRandomWalk reads \<open>x[0]\<close> and raises IndexError.
\<close>

theorem EM_GRW_empty_counterexample:
  "EM_logp \<lparr>em_dt = Scalar 1, em_sde_fn = (\<lambda>x p. (Scalar 0, Scalar 1)), em_sde_pars = ()\<rparr> (Vec [])
     = Inr (Scalar 0)
   \<and> GRW_logp \<lparr>grw_tau = Scalar 1, grw_sigma = Scalar 1, grw_mu = Scalar 0, grw_init = Flat_logp,
      grw_shape = [1]\<rparr> (Vec []) = Inl IndexError
   \<and> GRW_init None Flat_logp (Some (Scalar 1)) (Scalar 0) None None
     = Inr \<lparr>grw_tau = Scalar 1, grw_sigma = Scalar 1, grw_mu = Scalar 0, grw_init = Flat_logp,
      grw_shape = [1]\<rparr>"
  by (simp add: EM_logp_def GRW_logp_def GRW_init_def drop_first_def py_slice_def py_bound_def
      Normal_dist_def Normal_logp_def)

text \<open>
  Claim C10. For a one-dimensional sequence of length exactly 1 (and parameters aligned with
  it), \<open>GaussianRandomWalk.logp\<close> is \<open>init.logp\<close> of the single element: the innovation
  contribution is an empty sum.
\<close>

theorem GRW_single_point:
  "aligned (grw_mu g) 1 \<Longrightarrow> aligned (grw_sigma g) 1 \<Longrightarrow>
     GRW_logp g (Vec [v]) = grw_init g (Scalar v)"
proof -
  assume mu: "aligned (grw_mu g) 1" and sigma: "aligned (grw_sigma g) 1"
  have unit: "elemwise (+) i (Scalar 0) = Inr i" for i
    by (cases i) (simp_all add: map_idI)
  have "(case grw_init g (Scalar v) of Inl e \<Rightarrow> Inl e | Inr i \<Rightarrow> elemwise (+) i (Scalar 0))
      = grw_init g (Scalar v)"
    by (simp add: unit split: sum.splits)
  moreover have "GRW_logp g (Vec [v]) =
      (case grw_init g (Scalar v) of Inl e \<Rightarrow> Inl e | Inr i \<Rightarrow> elemwise (+) i (Scalar 0))"
    using mu sigma
    by (cases "grw_mu g"; cases "grw_sigma g")
       (simp_all add: aligned_def GRW_logp_def drop_first_def py_slice_def py_bound_def
          Normal_dist_def Normal_logp_def cong: sum.case_cong)
  ultimately show ?thesis by simp
qed

theorem GRW_single_point_witness:
  "GRW_logp \<lparr>grw_tau = Vec [4], grw_sigma = Vec [1 / 2], grw_mu = Scalar 3, grw_init = Flat_logp,
      grw_shape = [1]\<rparr> (Vec [7]) = Flat_logp (Scalar 7)"
  using GRW_single_point[of "\<lparr>grw_tau = Vec [4], grw_sigma = Vec [1 / 2], grw_mu = Scalar 3,
      grw_init = Flat_logp, grw_shape = [1]\<rparr>" 7]
  by (simp add: aligned_def)

subsection \<open>Constructors and AR\<close>

text \<open>
  Claim C4. Constructing an AR or a GaussianRandomWalk with both \<open>sigma\<close> (or its alias
  \<open>sd\<close>) and \<open>tau\<close>, or with neither, fails: with the configuration error of the scale
  helper, or, for a random walk of zero shape, with the TypeError of the shape check that
  comes first.
\<close>

theorem scale_conflict_fails:
  "AR_init rho (Some s) (Some t) c init sd = Inl ConfigError
   \<and> AR_init rho sigma (Some t) c init (Some s) = Inl ConfigError
   \<and> AR_init rho None None c init None = Inl ConfigError
   \<and> GRW_init (Some t) ginit (Some s) mu sd shape =
        Inl (if sum_list (case shape of None \<Rightarrow> [1] | Some d \<Rightarrow> d) = 0 then TypeError else ConfigError)
   \<and> GRW_init (Some t) ginit sigma mu (Some s) shape =
        Inl (if sum_list (case shape of None \<Rightarrow> [1] | Some d \<Rightarrow> d) = 0 then TypeError else ConfigError)
   \<and> GRW_init None ginit None mu None shape =
        Inl (if sum_list (case shape of None \<Rightarrow> [1] | Some d \<Rightarrow> d) = 0 then TypeError else ConfigError)"
  by (simp add: AR_init_def GRW_init_def Let_def split: option.splits)

text \<open>
  Claim C7. With all other parameters equal, an AR (or a GaussianRandomWalk) constructed with
  \<open>tau = 4\<close> and one constructed with \<open>sigma = 0.5\<close> give the same \<open>logp\<close> on every input.
\<close>

theorem scale_duality:
  "(AR_init rho None (Some (Scalar 4)) c init None = Inr a \<longrightarrow>
    AR_init rho (Some (Scalar (1 / 2))) None c init None = Inr b \<longrightarrow>
      AR_logp a v = AR_logp b v)
   \<and> (GRW_init (Some (Scalar 4)) ginit None mu None shape = Inr g \<longrightarrow>
      GRW_init None ginit (Some (Scalar (1 / 2))) mu None shape = Inr h \<longrightarrow>
        GRW_logp g x = GRW_logp h x)"
proof -
  have half: "(1 / 2 :: real)\<^sup>2 = 1 / 4" by (simp add: power2_eq_square)
  have "a = b"
    if "AR_init rho None (Some (Scalar 4)) c init None = Inr a"
      and "AR_init rho (Some (Scalar (1 / 2))) None c init None = Inr b"
    using that by (auto simp: AR_init_def Let_def half)
  moreover have "g = h"
    if "GRW_init (Some (Scalar 4)) ginit None mu None shape = Inr g"
      and "GRW_init None ginit (Some (Scalar (1 / 2))) mu None shape = Inr h"
    using that by (auto simp: GRW_init_def Let_def half split: if_splits)
  ultimately show ?thesis by blast
qed

theorem scale_duality_witness:
  "AR_init (Vec [1 / 2]) None (Some (Scalar 4)) False Flat_logp None
     = Inr \<lparr>ar_sigma = Scalar (1 / 2), ar_tau = Scalar 4, ar_p = 1, ar_constant = False,
            ar_rho = Vec [1 / 2], ar_init = Flat_logp\<rparr>
   \<and> AR_init (Vec [1 / 2]) (Some (Scalar (1 / 2))) None False Flat_logp None
     = Inr \<lparr>ar_sigma = Scalar (1 / 2), ar_tau = Scalar 4, ar_p = 1, ar_constant = False,
            ar_rho = Vec [1 / 2], ar_init = Flat_logp\<rparr>
   \<and> GRW_init (Some (Scalar 4)) Flat_logp None (Scalar 0) None None
     = Inr \<lparr>grw_tau = Scalar 4, grw_sigma = Scalar (1 / 2), grw_mu = Scalar 0,
            grw_init = Flat_logp, grw_shape = [1]\<rparr>
   \<and> GRW_init None Flat_logp (Some (Scalar (1 / 2))) (Scalar 0) None None
     = Inr \<lparr>grw_tau = Scalar 4, grw_sigma = Scalar (1 / 2), grw_mu = Scalar 0,
            grw_init = Flat_logp, grw_shape = [1]\<rparr>
   \<and> AR_logp \<lparr>ar_sigma = Scalar (1 / 2), ar_tau = Scalar 4, ar_p = 1, ar_constant = False,
            ar_rho = Vec [1 / 2], ar_init = Flat_logp\<rparr> (Vec [1, 2, 3])
     = Inr (Scalar (sum_list (map (normal_lpdf 0 4) [3 / 2, 2])))"
proof -
  have half: "(1 / 2 :: real)\<^sup>2 = 1 / 4" by (simp add: power2_eq_square)
  have a: "AR_init (Vec [1 / 2]) None (Some (Scalar 4)) False Flat_logp None
     = Inr \<lparr>ar_sigma = Scalar (1 / 2), ar_tau = Scalar 4, ar_p = 1, ar_constant = False,
            ar_rho = Vec [1 / 2], ar_init = Flat_logp\<rparr>"
    by (simp add: AR_init_def)
  have b: "AR_init (Vec [1 / 2]) (Some (Scalar (1 / 2))) None False Flat_logp None
     = Inr \<lparr>ar_sigma = Scalar (1 / 2), ar_tau = Scalar 4, ar_p = 1, ar_constant = False,
            ar_rho = Vec [1 / 2], ar_init = Flat_logp\<rparr>"
    by (simp add: AR_init_def half)
  have g: "GRW_init (Some (Scalar 4)) Flat_logp None (Scalar 0) None None
     = Inr \<lparr>grw_tau = Scalar 4, grw_sigma = Scalar (1 / 2), grw_mu = Scalar 0,
            grw_init = Flat_logp, grw_shape = [1]\<rparr>"
    by (simp add: GRW_init_def)
  have h: "GRW_init None Flat_logp (Some (Scalar (1 / 2))) (Scalar 0) None None
     = Inr \<lparr>grw_tau = Scalar 4, grw_sigma = Scalar (1 / 2), grw_mu = Scalar 0,
            grw_init = Flat_logp, grw_shape = [1]\<rparr>"
    by (simp add: GRW_init_def half)
  have l: "AR_logp \<lparr>ar_sigma = Scalar (1 / 2), ar_tau = Scalar 4, ar_p = 1, ar_constant = False,
            ar_rho = Vec [1 / 2], ar_init = Flat_logp\<rparr> (Vec [1, 2, 3])
     = Inr (Scalar (sum_list (map (normal_lpdf 0 4) [3 / 2, 2])))"
    by (simp add: AR_logp_def AR_eps_def py_slice_def py_bound_def Normal_dist_def
        Normal_logp_def normal_lpdf_def Flat_logp_def)
  from scale_duality[of "Vec [1 / 2]" False Flat_logp
      "\<lparr>ar_sigma = Scalar (1 / 2), ar_tau = Scalar 4, ar_p = 1, ar_constant = False,
            ar_rho = Vec [1 / 2], ar_init = Flat_logp\<rparr>"
      "\<lparr>ar_sigma = Scalar (1 / 2), ar_tau = Scalar 4, ar_p = 1, ar_constant = False,
            ar_rho = Vec [1 / 2], ar_init = Flat_logp\<rparr>"
      "Vec [1, 2, 3]" Flat_logp "Scalar 0" None
      "\<lparr>grw_tau = Scalar 4, grw_sigma = Scalar (1 / 2), grw_mu = Scalar 0,
            grw_init = Flat_logp, grw_shape = [1]\<rparr>"
      "\<lparr>grw_tau = Scalar 4, grw_sigma = Scalar (1 / 2), grw_mu = Scalar 0,
            grw_init = Flat_logp, grw_shape = [1]\<rparr>"
      "Vec [1, 2, 3]"] a b g h l
  show ?thesis by simp
qed

text \<open>
  Claim C8, as amended. Constructing a GaussianRandomWalk fails with the TypeError of the
  shape check exactly when the dimensions of the shape add up to zero (the sum is what the
  source computes; for a walk of shape \<open>(n,)\<close> it is its length \<open>n\<close>, and for the empty
  shape \<open>()\<close> it is zero), so construction succeeds only when that sum is at least 1; with
  a sum of at least 1 and one scale parameter it does succeed.
\<close>

theorem GRW_zero_shape_fails:
  "(sum_list shape = 0 \<longrightarrow> GRW_init tau init sigma mu sd (Some shape) = Inl TypeError)
   \<and> (\<forall>g. GRW_init tau init sigma mu sd (Some shape) = Inr g \<longrightarrow> 1 \<le> sum_list shape)
   \<and> (GRW_init tau init sigma mu sd (Some shape) = Inl TypeError \<longrightarrow> sum_list shape = 0)
   \<and> (1 \<le> sum_list shape \<longrightarrow>
        (\<exists>g. GRW_init None init (Some s) mu None (Some shape) = Inr g \<and> grw_shape g = shape))"
proof (cases "sum_list shape = 0")
  case True
  then show ?thesis
    by (simp add: GRW_init_def del: sum_list_eq_0_iff)
next
  case False
  then have "1 \<le> sum_list shape" by (simp del: sum_list_eq_0_iff)
  with False show ?thesis
    by (cases tau; cases sigma; cases sd) (simp_all add: GRW_init_def del: sum_list_eq_0_iff)
qed

theorem GRW_zero_shape_fails_witness:
  "GRW_init None Flat_logp (Some (Scalar 1)) (Scalar 0) None (Some [0]) = Inl TypeError
   \<and> GRW_init None Flat_logp (Some (Scalar 1)) (Scalar 0) None (Some []) = Inl TypeError
   \<and> 1 \<le> sum_list [3 :: nat]
   \<and> (\<exists>g. GRW_init None Flat_logp (Some (Scalar 1)) (Scalar 0) None (Some [3]) = Inr g
          \<and> grw_shape g = [3])"
  using GRW_zero_shape_fails[of "[0]" None Flat_logp "Some (Scalar 1)" "Scalar 0" None "Scalar 1"]
    GRW_zero_shape_fails[of "[]" None Flat_logp "Some (Scalar 1)" "Scalar 0" None "Scalar 1"]
    GRW_zero_shape_fails[of "[3]" None Flat_logp "Some (Scalar 1)" "Scalar 0" None "Scalar 1"]
  by simp

text \<open>
  Claim C8 as stated, for every shape whose total length is zero, fails at the shapes
  \<open>(0, 5)\<close> and \<open>(5, 0)\<close>: they hold no element (and the first has no step), yet their
  dimensions add up to 5, the shape check passes and the walk is constructed.
\<close>

theorem GRW_zero_length_shape_counterexample:
  "prod_list [0, 5 :: nat] = 0
   \<and> GRW_init None Flat_logp (Some (Scalar 1)) (Scalar 0) None (Some [0, 5])
     = Inr \<lparr>grw_tau = Scalar 1, grw_sigma = Scalar 1, grw_mu = Scalar 0, grw_init = Flat_logp,
            grw_shape = [0, 5]\<rparr>
   \<and> prod_list [5, 0 :: nat] = 0
   \<and> GRW_init None Flat_logp (Some (Scalar 1)) (Scalar 0) None (Some [5, 0])
     = Inr \<lparr>grw_tau = Scalar 1, grw_sigma = Scalar 1, grw_mu = Scalar 0, grw_init = Flat_logp,
            grw_shape = [5, 0]\<rparr>"
  by (simp add: GRW_init_def)

text \<open>
  Claim C5. For the AR distribution with \<open>constant = False\<close> and \<open>rho = [0.5]\<close> (so one lag),
  at \<open>[1, 2, 3]\<close> the innovation residuals are \<open>[1.5, 2.0]\<close> and \<open>logp\<close> is the sum of their
  Normal(0, \<open>tau\<close>) log-densities plus (the sum of) \<open>init.logp\<close> applied to \<open>[1]\<close>.
\<close>

theorem AR_half_lag_residuals:
  "AR_init (Vec [1 / 2]) sigma tau False init sd = Inr a \<Longrightarrow> ar_tau a = Scalar t \<Longrightarrow>
   init (Vec [1]) = Inr il \<Longrightarrow>
     ar_p a = 1
     \<and> AR_eps a (Vec [1, 2, 3]) = Inr (Vec [3 / 2, 2])
     \<and> AR_logp a (Vec [1, 2, 3]) =
         Inr (Scalar (sum_list (map (normal_lpdf 0 t) [3 / 2, 2]) + tsum il))"
proof -
  assume a: "AR_init (Vec [1 / 2]) sigma tau False init sd = Inr a"
    and t: "ar_tau a = Scalar t" and il: "init (Vec [1]) = Inr il"
  from a have f: "ar_p a = 1" "ar_constant a = False" "ar_rho a = Vec [1 / 2]" "ar_init a = init"
    by (auto simp: AR_init_def Let_def split: sum.splits prod.splits)
  have eps: "AR_eps a (Vec [1, 2, 3]) = Inr (Vec [3 / 2, 2])"
    by (simp add: AR_eps_def f py_slice_def py_bound_def)
  have first: "slice (Vec [1, 2, 3]) None (Some 1) = Inr (Vec [1])"
    by (simp add: py_slice_def py_bound_def)
  have "AR_logp a (Vec [1, 2, 3]) =
         Inr (Scalar (sum_list (map (normal_lpdf 0 t) [3 / 2, 2]) + tsum il))"
    by (simp add: AR_logp_def eps f t il first Normal_dist_tau Normal_logp_fixed_mean
          del: slice.simps)
  with f eps show ?thesis by simp
qed

theorem AR_half_lag_residuals_witness:
  "AR_logp \<lparr>ar_sigma = Scalar 1, ar_tau = Scalar 1, ar_p = 1, ar_constant = False,
            ar_rho = Vec [1 / 2], ar_init = Flat_logp\<rparr> (Vec [1, 2, 3])
     = Inr (Scalar (sum_list (map (normal_lpdf 0 1) [3 / 2, 2]) + tsum (Vec [0])))"
  using AR_half_lag_residuals[of None "Some (Scalar 1)" Flat_logp None
      "\<lparr>ar_sigma = Scalar 1, ar_tau = Scalar 1, ar_p = 1, ar_constant = False,
            ar_rho = Vec [1 / 2], ar_init = Flat_logp\<rparr>" 1 "Vec [0]"]
  by (simp add: AR_init_def Flat_logp_def)

end
